theory Spec2Isabelle
  imports Main
begin

section \<open>The regular expression of the ISBN check\<close>

text \<open>
  Go strings are byte sequences, and so is \<^typ>\<open>string\<close>. The program compiles the
  pattern \<^verbatim>\<open>[0-9]{3}\-[0-9]{10}\<close>; the syntax tree below has the constructs that pattern
  uses: a character range, a literal, a counted repetition and a concatenation. The pattern
  is pure ASCII, and no ASCII byte occurs inside a multi-byte UTF-8 sequence, so matching
  bytes and matching runes agree on it.
\<close>

datatype regexp =
    CharRange char char
  | Literal char
  | Repeat nat regexp
  | Concat regexp regexp

text \<open>\<open>iterate n f s\<close>: the remainders after \<open>n\<close> successive matches of \<open>f\<close>.\<close>

primrec iterate :: "nat \<Rightarrow> (string \<Rightarrow> string list) \<Rightarrow> string \<Rightarrow> string list" where
  "iterate 0 f s = [s]"
| "iterate (Suc n) f s = concat (map (iterate n f) (f s))"

text \<open>\<open>matchAt re s\<close>: every remainder of \<open>s\<close> after a match of \<open>re\<close> that starts at
  the first byte of \<open>s\<close>.\<close>

fun matchAt :: "regexp \<Rightarrow> string \<Rightarrow> string list" where
  "matchAt (CharRange lo hi) [] = []"
| "matchAt (CharRange lo hi) (c # cs) =
     (if (of_char lo :: nat) \<le> of_char c \<and> (of_char c :: nat) \<le> of_char hi then [cs] else [])"
| "matchAt (Literal a) [] = []"
| "matchAt (Literal a) (c # cs) = (if c = a then [cs] else [])"
| "matchAt (Repeat n r) s = iterate n (\<lambda>t. matchAt r t) s"
| "matchAt (Concat r1 r2) s = concat (map (\<lambda>t. matchAt r2 t) (matchAt r1 s))"

text \<open>The suffixes of a string, longest first: the positions a match may start at.\<close>

fun tails :: "string \<Rightarrow> string list" where
  "tails [] = [[]]"
| "tails (c # cs) = (c # cs) # tails cs"

text \<open>\<^verbatim>\<open>(*Regexp).MatchString\<close>: the string contains a match of the expression, at any
  position (the expression is not anchored).\<close>

definition MatchString :: "regexp \<Rightarrow> string \<Rightarrow> bool" where
  "MatchString re s = list_ex (\<lambda>t. matchAt re t \<noteq> []) (tails s)"

text \<open>\<^verbatim>\<open>var isbnRegexp = regexp.MustCompile(`[0-9]{3}\-[0-9]{10}`)\<close>\<close>

definition isbnRegexp :: regexp where
  "isbnRegexp =
     Concat (Repeat 3 (CharRange CHR ''0'' CHR ''9''))
       (Concat (Literal CHR ''-'') (Repeat 10 (CharRange CHR ''0'' CHR ''9'')))"

text \<open>A decimal digit, and the shape the pattern describes: three digits, a hyphen, ten
  digits, and nothing else.\<close>

definition isDigit :: "char \<Rightarrow> bool" where
  "isDigit c = ((48::nat) \<le> of_char c \<and> (of_char c :: nat) \<le> 57)"

definition isbnShape :: "string \<Rightarrow> bool" where
  "isbnShape t =
     (length t = 14 \<and> list_all isDigit (take 3 t) \<and> t ! 3 = CHR ''-''
        \<and> list_all isDigit (drop 4 t))"


section \<open>Data model\<close>

text \<open>\<^verbatim>\<open>type book struct { ISBN, Title, Author string }\<close>\<close>

record book =
  ISBN :: string
  Title :: string
  Author :: string

text \<open>A non-nil value of Go's \<^verbatim>\<open>error\<close> interface, with the message \<^verbatim>\<open>Error()\<close> returns.
  A Go result \<^verbatim>\<open>(v, err)\<close> is a pair whose second component is \<open>None\<close> for \<^verbatim>\<open>nil\<close>.\<close>

datatype error = errorString (Error: string)

text \<open>The fields of \<^verbatim>\<open>events.APIGatewayProxyRequest\<close> and
  \<^verbatim>\<open>events.APIGatewayProxyResponse\<close> that the program reads and writes. Both structs
  have fields \<^verbatim>\<open>Headers\<close> and \<^verbatim>\<open>Body\<close>; the response's are \<open>RespHeaders\<close> and
  \<open>RespBody\<close> here. A nil Go map and an empty one are both \<^term>\<open>Map.empty\<close>.\<close>

record APIGatewayProxyRequest =
  HTTPMethod :: string
  Headers :: "string \<rightharpoonup> string"
  QueryStringParameters :: "string \<rightharpoonup> string"
  Body :: string

record APIGatewayProxyResponse =
  StatusCode :: int
  RespHeaders :: "string \<rightharpoonup> string"
  RespBody :: string

text \<open>Indexing a Go \<^verbatim>\<open>map[string]string\<close>: a missing key reads as the empty string.\<close>

definition mapIndex :: "(string \<rightharpoonup> string) \<Rightarrow> string \<Rightarrow> string" where
  "mapIndex m k = (case m k of None \<Rightarrow> [] | Some v \<Rightarrow> v)"

subsection \<open>Status codes of net/http\<close>

abbreviation StatusOK :: int where "StatusOK \<equiv> 200"
abbreviation StatusCreated :: int where "StatusCreated \<equiv> 201"
abbreviation StatusBadRequest :: int where "StatusBadRequest \<equiv> 400"
abbreviation StatusNotFound :: int where "StatusNotFound \<equiv> 404"
abbreviation StatusMethodNotAllowed :: int where "StatusMethodNotAllowed \<equiv> 405"
abbreviation StatusNotAcceptable :: int where "StatusNotAcceptable \<equiv> 406"
abbreviation StatusUnprocessableEntity :: int where "StatusUnprocessableEntity \<equiv> 422"
abbreviation StatusInternalServerError :: int where "StatusInternalServerError \<equiv> 500"

text \<open>\<^verbatim>\<open>http.StatusText\<close>, on the codes the program uses; the empty string for a code
  without an entry.\<close>

definition StatusText :: "int \<Rightarrow> string" where
  "StatusText code =
     (if code = StatusOK then ''OK''
      else if code = StatusCreated then ''Created''
      else if code = StatusBadRequest then ''Bad Request''
      else if code = StatusNotFound then ''Not Found''
      else if code = StatusMethodNotAllowed then ''Method Not Allowed''
      else if code = StatusNotAcceptable then ''Not Acceptable''
      else if code = StatusUnprocessableEntity then ''Unprocessable Entity''
      else if code = StatusInternalServerError then ''Internal Server Error''
      else [])"

section \<open>What the handlers call\<close>

text \<open>
  The handlers call code that is not part of \<^verbatim>\<open>main.go\<close>: the JSON codec
  (\<^verbatim>\<open>json.Unmarshal\<close> into a fresh \<^verbatim>\<open>book\<close>, \<^verbatim>\<open>json.Marshal\<close> of a \<^verbatim>\<open>book\<close>), and the
  persistence operations \<^verbatim>\<open>getItem\<close> and \<^verbatim>\<open>putItem\<close>. They are parameters of the model,
  with the result types of their Go signatures; the persistence operations act on a
  backend state \<open>'db\<close>. \<open>srcFile\<close> is the full path of the source file, which
  \<^verbatim>\<open>log.Llongfile\<close> prints. The operations are assumed to return, and \<^verbatim>\<open>putItem\<close> not to
  write through the pointer it receives.
\<close>

record 'db collaborators =
  Unmarshal :: "string \<Rightarrow> book \<times> error option"
  Marshal :: "book \<Rightarrow> string \<times> error option"
  fetch :: "string \<Rightarrow> 'db \<Rightarrow> (book option \<times> error option) \<times> 'db"
  store :: "book \<Rightarrow> 'db \<Rightarrow> error option \<times> 'db"
  srcFile :: string

text \<open>The calls a handler makes, in order: a history kept beside the state, so that
  "the handler never calls \<open>f\<close>" is a statement about it.\<close>

datatype event =
    UnmarshalCall string
  | GetItemCall string
  | PutItemCall book
  | MarshalCall book

text \<open>What an invocation can change: the backend, the lines written to \<^verbatim>\<open>os.Stderr\<close>,
  and the history of calls.\<close>

record 'db world =
  db :: 'db
  stderr :: "string list"
  calls :: "event list"

definition json_Unmarshal ::
  "'db collaborators \<Rightarrow> string \<Rightarrow> 'db world \<Rightarrow> (book \<times> error option) \<times> 'db world" where
  "json_Unmarshal env data w = (Unmarshal env data, w\<lparr>calls := calls w @ [UnmarshalCall data]\<rparr>)"

definition json_Marshal ::
  "'db collaborators \<Rightarrow> book \<Rightarrow> 'db world \<Rightarrow> (string \<times> error option) \<times> 'db world" where
  "json_Marshal env bk w = (Marshal env bk, w\<lparr>calls := calls w @ [MarshalCall bk]\<rparr>)"

definition getItem ::
  "'db collaborators \<Rightarrow> string \<Rightarrow> 'db world \<Rightarrow> (book option \<times> error option) \<times> 'db world" where
  "getItem env isbn w =
     (case fetch env isbn (db w) of
        (r, d) \<Rightarrow> (r, w\<lparr>db := d, calls := calls w @ [GetItemCall isbn]\<rparr>))"

definition putItem ::
  "'db collaborators \<Rightarrow> book \<Rightarrow> 'db world \<Rightarrow> error option \<times> 'db world" where
  "putItem env bk w =
     (case store env bk (db w) of
        (err, d) \<Rightarrow> (err, w\<lparr>db := d, calls := calls w @ [PutItemCall bk]\<rparr>))"

subsection \<open>The error logger\<close>

text \<open>\<^verbatim>\<open>var errorLogger = log.New(os.Stderr, "ERROR ", log.Llongfile)\<close>. \<^verbatim>\<open>Println\<close>
  writes one line: the prefix, the file and line of the call (line 100, in
  \<^verbatim>\<open>serverError\<close>), a colon and a space, the message and a newline.\<close>

record Logger =
  prefix :: string

definition errorLogger :: Logger where
  "errorLogger = \<lparr>prefix = ''ERROR ''\<rparr>"

definition Println :: "'db collaborators \<Rightarrow> Logger \<Rightarrow> string \<Rightarrow> 'db world \<Rightarrow> 'db world" where
  "Println env l msg w =
     w\<lparr>stderr := stderr w @ [prefix l @ srcFile env @ '':100: '' @ msg @ [CHR 0x0A]]\<rparr>"

section \<open>The handlers\<close>

type_synonym 'db result = "(APIGatewayProxyResponse \<times> error option) \<times> 'db world"

definition clientError :: "int \<Rightarrow> APIGatewayProxyResponse \<times> error option" where
  "clientError status =
     (\<lparr>StatusCode = status, RespHeaders = Map.empty, RespBody = StatusText status\<rparr>, None)"

definition serverError :: "'db collaborators \<Rightarrow> error \<Rightarrow> 'db world \<Rightarrow> 'db result" where
  "serverError env err w =
     ((\<lparr>StatusCode = StatusInternalServerError, RespHeaders = Map.empty,
        RespBody = StatusText StatusInternalServerError\<rparr>, None),
      Println env errorLogger (Error err) w)"

text \<open>\<^verbatim>\<open>show\<close> (the name is a keyword of Isabelle, hence \<open>show_book\<close>).\<close>

definition show_book ::
  "'db collaborators \<Rightarrow> APIGatewayProxyRequest \<Rightarrow> 'db world \<Rightarrow> 'db result" where
  "show_book env req w =
     (let isbn = mapIndex (QueryStringParameters req) ''isbn'' in
      if \<not> MatchString isbnRegexp isbn then (clientError StatusBadRequest, w)
      else
        (case getItem env isbn w of
           ((bk, err), w1) \<Rightarrow>
             (case err of
                Some e \<Rightarrow> serverError env e w1
              | None \<Rightarrow>
                 (case bk of
                    None \<Rightarrow> (clientError StatusNotFound, w1)
                  | Some b \<Rightarrow>
                     (case json_Marshal env b w1 of
                        ((js, err2), w2) \<Rightarrow>
                          (case err2 of
                             Some e \<Rightarrow> serverError env e w2
                           | None \<Rightarrow>
                              ((\<lparr>StatusCode = StatusOK, RespHeaders = Map.empty,
                                 RespBody = js\<rparr>, None), w2)))))))"

definition create ::
  "'db collaborators \<Rightarrow> APIGatewayProxyRequest \<Rightarrow> 'db world \<Rightarrow> 'db result" where
  "create env req w =
     (if mapIndex (Headers req) ''Content-Type'' \<noteq> ''application/json''
      then (clientError StatusNotAcceptable, w)
      else
        (case json_Unmarshal env (Body req) w of
           ((bk, err), w1) \<Rightarrow>
             if err \<noteq> None then (clientError StatusUnprocessableEntity, w1)
             else if \<not> MatchString isbnRegexp (ISBN bk) then (clientError StatusBadRequest, w1)
             else if Title bk = [] \<or> Author bk = [] then (clientError StatusBadRequest, w1)
             else
               (case putItem env bk w1 of
                  (err', w2) \<Rightarrow>
                    (case err' of
                       Some e \<Rightarrow> serverError env e w2
                     | None \<Rightarrow>
                        ((\<lparr>StatusCode = 201,
                           RespHeaders = [''Location'' \<mapsto> ''/books?isbn='' @ ISBN bk],
                           RespBody = []\<rparr>, None), w2)))))"

definition router ::
  "'db collaborators \<Rightarrow> APIGatewayProxyRequest \<Rightarrow> 'db world \<Rightarrow> 'db result" where
  "router env req w =
     (if HTTPMethod req = ''GET'' then show_book env req w
      else if HTTPMethod req = ''POST'' then create env req w
      else (clientError StatusMethodNotAllowed, w))"

text \<open>The hosting runtime invokes \<open>router\<close> once per request; a run of requests threads
  the world through the invocations and collects the responses.\<close>

fun serve ::
  "'db collaborators \<Rightarrow> APIGatewayProxyRequest list \<Rightarrow> 'db world
     \<Rightarrow> (APIGatewayProxyResponse \<times> error option) list \<times> 'db world" where
  "serve env [] w = ([], w)"
| "serve env (req # reqs) w =
     (case router env req w of
        (r, w1) \<Rightarrow> (case serve env reqs w1 of (rs, w2) \<Rightarrow> (r # rs, w2)))"

text \<open>The constraints on a book record: the ISBN passes the check, title and author are
  not empty.\<close>

definition validBook :: "book \<Rightarrow> bool" where
  "validBook b = (MatchString isbnRegexp (ISBN b) \<and> Title b \<noteq> [] \<and> Author b \<noteq> [])"

section \<open>Collaborators for concrete runs\<close>

text \<open>
  Modelled from the spec: \<^verbatim>\<open>getItem\<close> and \<^verbatim>\<open>putItem\<close> are functions of the repository
  that \<^verbatim>\<open>main.go\<close> does not contain. The spec describes them as a key-value store keyed
  by ISBN, with \<open>fetch(isbn) -> Record | Absent\<close> and \<open>store(record) -> Success\<close>, to be
  replaced by an in-memory implementation in tests: a map from ISBN to record, where a
  fetch reads the key and a store overwrites it, and neither fails.
\<close>

definition memFetch :: "string \<Rightarrow> (string \<rightharpoonup> book) \<Rightarrow> (book option \<times> error option) \<times> (string \<rightharpoonup> book)" where
  "memFetch isbn d = ((d isbn, None), d)"

definition memStore :: "book \<Rightarrow> (string \<rightharpoonup> book) \<Rightarrow> error option \<times> (string \<rightharpoonup> book)" where
  "memStore bk d = (None, d(ISBN bk \<mapsto> bk))"

text \<open>A backend that is down: every operation fails with the same cause and leaves the
  store as it is.\<close>

definition downFetch :: "string \<Rightarrow> (string \<rightharpoonup> book) \<Rightarrow> (book option \<times> error option) \<times> (string \<rightharpoonup> book)" where
  "downFetch isbn d = ((None, Some (errorString ''connection refused'')), d)"

definition downStore :: "book \<Rightarrow> (string \<rightharpoonup> book) \<Rightarrow> error option \<times> (string \<rightharpoonup> book)" where
  "downStore bk d = (Some (errorString ''connection refused''), d)"

text \<open>A codec for concrete runs. The decoder knows two bodies, the complete record and the
  one with only an ISBN (whose title and author keep the zero value of a fresh \<^verbatim>\<open>book\<close>),
  and rejects every other input; the encoder writes the three fields in the order of the
  struct, without escaping, which is what \<^verbatim>\<open>json.Marshal\<close> gives for fields of letters,
  digits, spaces and hyphens.\<close>

definition sampleBook :: book where
  "sampleBook = \<lparr>ISBN = ''123-4567890123'', Title = ''Emma'', Author = ''Jane Austen''\<rparr>"

definition sampleJSON :: string where
  \<open>sampleJSON = ''{"isbn":"123-4567890123","title":"Emma","author":"Jane Austen"}''\<close>

definition isbnOnlyJSON :: string where
  \<open>isbnOnlyJSON = ''{"isbn":"123-4567890123"}''\<close>

definition demoUnmarshal :: "string \<Rightarrow> book \<times> error option" where
  "demoUnmarshal data =
     (if data = sampleJSON then (sampleBook, None)
      else if data = isbnOnlyJSON
        then (\<lparr>ISBN = ''123-4567890123'', Title = [], Author = []\<rparr>, None)
      else (\<lparr>ISBN = [], Title = [], Author = []\<rparr>,
            Some (errorString ''unexpected end of JSON input'')))"

definition demoMarshal :: "book \<Rightarrow> string \<times> error option" where
  \<open>demoMarshal bk =
     (''{"isbn":"'' @ ISBN bk @ ''","title":"'' @ Title bk @ ''","author":"'' @ Author bk @ ''"}'',
      None)\<close>

definition memEnv :: "(string \<rightharpoonup> book) collaborators" where
  "memEnv = \<lparr>Unmarshal = demoUnmarshal, Marshal = demoMarshal, fetch = memFetch,
     store = memStore, srcFile = ''/app/main.go''\<rparr>"

definition downEnv :: "(string \<rightharpoonup> book) collaborators" where
  "downEnv = \<lparr>Unmarshal = demoUnmarshal, Marshal = demoMarshal, fetch = downFetch,
     store = downStore, srcFile = ''/app/main.go''\<rparr>"

definition emptyWorld :: "(string \<rightharpoonup> book) world" where
  "emptyWorld = \<lparr>db = Map.empty, stderr = [], calls = []\<rparr>"

text \<open>Requests: a GET for an ISBN, a GET without the query parameter, a POST with a
  content type under a header name and a body, and a request of another method.\<close>

definition getRequest :: "string \<Rightarrow> APIGatewayProxyRequest" where
  "getRequest isbn = \<lparr>HTTPMethod = ''GET'', Headers = Map.empty,
     QueryStringParameters = [''isbn'' \<mapsto> isbn], Body = []\<rparr>"

definition bareGetRequest :: APIGatewayProxyRequest where
  "bareGetRequest = \<lparr>HTTPMethod = ''GET'', Headers = Map.empty,
     QueryStringParameters = Map.empty, Body = []\<rparr>"

definition postRequest :: "string \<Rightarrow> string \<Rightarrow> string \<Rightarrow> APIGatewayProxyRequest" where
  "postRequest header ctype body = \<lparr>HTTPMethod = ''POST'', Headers = [header \<mapsto> ctype],
     QueryStringParameters = Map.empty, Body = body\<rparr>"

definition deleteRequest :: APIGatewayProxyRequest where
  "deleteRequest = \<lparr>HTTPMethod = ''DELETE'', Headers = Map.empty,
     QueryStringParameters = Map.empty, Body = []\<rparr>"

section \<open>The ISBN check\<close>

lemma matchAt_digit:
  "matchAt (CharRange CHR ''0'' CHR ''9'') s =
     (case s of [] \<Rightarrow> [] | c # cs \<Rightarrow> if isDigit c then [cs] else [])"
  by (cases s) (simp_all add: isDigit_def)

text \<open>A counted repetition of the digit class consumes exactly that many digits.\<close>

lemma iterate_digits:
  "r \<in> set (iterate n (matchAt (CharRange CHR ''0'' CHR ''9'')) s) \<longleftrightarrow>
     (\<exists>d. s = d @ r \<and> length d = n \<and> list_all isDigit d)"
proof (induction n arbitrary: s)
  case 0
  show ?case by auto
next
  case (Suc n)
  show ?case
  proof (cases s)
    case Nil
    then show ?thesis by (simp add: matchAt_digit)
  next
    case (Cons c cs)
    show ?thesis
    proof (cases "isDigit c")
      case False
      with Cons show ?thesis by (auto simp: matchAt_digit Cons_eq_append_conv)
    next
      case True
      have "(\<exists>d. cs = d @ r \<and> length d = n \<and> list_all isDigit d) \<longleftrightarrow>
            (\<exists>d. c # cs = d @ r \<and> length d = Suc n \<and> list_all isDigit d)"
        (is "?L \<longleftrightarrow> ?R")
      proof
        assume ?L
        then obtain d where "cs = d @ r" "length d = n" "list_all isDigit d" by blast
        with True
        have "c # cs = (c # d) @ r \<and> length (c # d) = Suc n \<and> list_all isDigit (c # d)"
          by simp
        then show ?R by blast
      next
        assume ?R
        then obtain d where d: "c # cs = d @ r" "length d = Suc n" "list_all isDigit d"
          by blast
        then obtain d' where "d = c # d'" by (cases d) auto
        with d show ?L by auto
      qed
      with Cons True show ?thesis using Suc.IH [of cs] by (simp add: matchAt_digit)
    qed
  qed
qed

lemma matchAt_literal: "r \<in> set (matchAt (Literal a) s) \<longleftrightarrow> s = a # r"
  by (cases s) auto

lemma matchAt_isbnRegexp:
  "r \<in> set (matchAt isbnRegexp s) \<longleftrightarrow>
     (\<exists>a b. s = a @ CHR ''-'' # b @ r \<and> length a = 3 \<and> list_all isDigit a
        \<and> length b = 10 \<and> list_all isDigit b)"
proof -
  let ?D = "matchAt (CharRange CHR ''0'' CHR ''9'')"
  have "r \<in> set (matchAt isbnRegexp s) \<longleftrightarrow>
      (\<exists>x y. x \<in> set (iterate 3 ?D s) \<and> y \<in> set (matchAt (Literal CHR ''-'') x)
         \<and> r \<in> set (iterate 10 ?D y))"
    by (simp add: isbnRegexp_def Bex_def)
  also have "\<dots> \<longleftrightarrow> (\<exists>x y a b. s = a @ x \<and> length a = 3 \<and> list_all isDigit a
      \<and> x = CHR ''-'' # y \<and> y = b @ r \<and> length b = 10 \<and> list_all isDigit b)"
    unfolding iterate_digits matchAt_literal by blast
  also have "\<dots> \<longleftrightarrow> (\<exists>a b. s = a @ CHR ''-'' # b @ r \<and> length a = 3
      \<and> list_all isDigit a \<and> length b = 10 \<and> list_all isDigit b)"
    by blast
  finally show ?thesis .
qed

lemma isbnShape_iff:
  "isbnShape t \<longleftrightarrow>
     (\<exists>a b. t = a @ CHR ''-'' # b \<and> length a = 3 \<and> list_all isDigit a
        \<and> length b = 10 \<and> list_all isDigit b)" (is "?L \<longleftrightarrow> ?R")
proof
  assume L: ?L
  then have len: "length t = 14" by (simp add: isbnShape_def)
  have "t = take 3 t @ drop 3 t" by simp
  moreover have "drop 3 t = t ! 3 # drop 4 t"
    using len Cons_nth_drop_Suc [of 3 t] by simp
  ultimately have "t = take 3 t @ CHR ''-'' # drop 4 t"
    using L by (simp add: isbnShape_def)
  moreover have "length (take 3 t) = 3" "length (drop 4 t) = 10" using len by simp_all
  ultimately show ?R using L unfolding isbnShape_def by blast
next
  assume ?R
  then obtain a b where "t = a @ CHR ''-'' # b" "length a = 3" "list_all isDigit a"
    "length b = 10" "list_all isDigit b" by blast
  then show ?L by (simp add: isbnShape_def nth_append)
qed

lemma set_tails: "set (tails s) = {t. \<exists>pre. s = pre @ t}"
proof (induction s)
  case Nil
  show ?case by simp
next
  case (Cons c cs)
  show ?case unfolding tails.simps list.set Cons.IH
    by (auto simp: Cons_eq_append_conv)
qed

lemma MatchString_isbnRegexp:
  "MatchString isbnRegexp s \<longleftrightarrow> (\<exists>pre t post. s = pre @ t @ post \<and> isbnShape t)"
proof -
  have "MatchString isbnRegexp s \<longleftrightarrow>
      (\<exists>t \<in> set (tails s). \<exists>r. r \<in> set (matchAt isbnRegexp t))"
    unfolding MatchString_def list_ex_iff
    by (metis ex_in_conv set_empty)
  also have "\<dots> \<longleftrightarrow> (\<exists>pre a b r. s = pre @ (a @ CHR ''-'' # b) @ r \<and> length a = 3
      \<and> list_all isDigit a \<and> length b = 10 \<and> list_all isDigit b)"
    unfolding set_tails matchAt_isbnRegexp by auto
  also have "\<dots> \<longleftrightarrow> (\<exists>pre t post. s = pre @ t @ post \<and> isbnShape t)"
    unfolding isbnShape_iff by blast
  finally show ?thesis .
qed

lemma sample_isbn_valid: "MatchString isbnRegexp ''123-4567890123''"
  by code_simp

lemma empty_isbn_invalid: "\<not> MatchString isbnRegexp []"
  by code_simp

text \<open>
  Claim C1. The ISBN check accepts a string exactly when the string contains three digits,
  a hyphen and ten digits in a row: \<open>s\<close> splits into a part before, a part \<open>t\<close> of that
  shape and a part after. So \<open>123-4567890123\<close> is accepted, \<open>12-4567890123\<close> is rejected,
  and \<open>xx123-4567890123xx\<close> is accepted, the pattern not being anchored.
\<close>

theorem isbn_check_substring:
  "(MatchString isbnRegexp s \<longleftrightarrow> (\<exists>pre t post. s = pre @ t @ post \<and> isbnShape t))
   \<and> MatchString isbnRegexp ''123-4567890123''
   \<and> \<not> MatchString isbnRegexp ''12-4567890123''
   \<and> MatchString isbnRegexp ''xx123-4567890123xx''"
proof (intro conjI)
  show "MatchString isbnRegexp s \<longleftrightarrow> (\<exists>pre t post. s = pre @ t @ post \<and> isbnShape t)"
    by (rule MatchString_isbnRegexp)
  show "MatchString isbnRegexp ''123-4567890123''" by (rule sample_isbn_valid)
  show "\<not> MatchString isbnRegexp ''12-4567890123''" by code_simp
  show "MatchString isbnRegexp ''xx123-4567890123xx''" by code_simp
qed

text \<open>The accepted strings are not only those of the shape itself: surrounding bytes, and
  so further digits on either side, pass the check.\<close>

lemma isbn_check_not_anchored:
  "MatchString isbnRegexp ''xx123-4567890123xx'' \<and> \<not> isbnShape ''xx123-4567890123xx''
   \<and> MatchString isbnRegexp ''1234-45678901234'' \<and> \<not> isbnShape ''1234-45678901234''"
  by code_simp

section \<open>Properties of the handlers\<close>

lemmas handler_defs =
  show_book_def create_def clientError_def serverError_def json_Unmarshal_def
  json_Marshal_def getItem_def putItem_def Println_def errorLogger_def StatusText_def
  Let_def

lemma sampleBook_valid: "validBook sampleBook"
  by (simp add: validBook_def sampleBook_def sample_isbn_valid)

lemma demoUnmarshal_sample: "demoUnmarshal sampleJSON = (sampleBook, None)"
  by (simp add: demoUnmarshal_def)

lemma demoUnmarshal_isbnOnly:
  "demoUnmarshal isbnOnlyJSON = (\<lparr>ISBN = ''123-4567890123'', Title = [], Author = []\<rparr>, None)"
  by (simp add: demoUnmarshal_def isbnOnlyJSON_def sampleJSON_def)

lemma demoUnmarshal_garbage:
  "demoUnmarshal ''{'' =
     (\<lparr>ISBN = [], Title = [], Author = []\<rparr>, Some (errorString ''unexpected end of JSON input''))"
  by (simp add: demoUnmarshal_def isbnOnlyJSON_def sampleJSON_def)

subsection \<open>The read handler\<close>

text \<open>
  Claim C2. In the read handler a missing \<open>isbn\<close> query parameter reads as the empty
  string. When the value does not pass the ISBN check (the empty string does not), the
  handler answers 400 and leaves the world as it was, whatever the backend holds: no fetch
  is called. When the value passes and the fetch returns neither a record nor an error,
  the handler answers 404.
\<close>

theorem show_book_bad_request_not_found:
  "(QueryStringParameters req ''isbn'' = None \<longrightarrow>
      mapIndex (QueryStringParameters req) ''isbn'' = []
      \<and> show_book env req w =
          ((\<lparr>StatusCode = 400, RespHeaders = Map.empty, RespBody = ''Bad Request''\<rparr>, None), w))
   \<and> (\<not> MatchString isbnRegexp (mapIndex (QueryStringParameters req) ''isbn'') \<longrightarrow>
        show_book env req w =
          ((\<lparr>StatusCode = 400, RespHeaders = Map.empty, RespBody = ''Bad Request''\<rparr>, None), w))
   \<and> (MatchString isbnRegexp (mapIndex (QueryStringParameters req) ''isbn'')
        \<and> fetch env (mapIndex (QueryStringParameters req) ''isbn'') (db w) = ((None, None), d) \<longrightarrow>
        fst (show_book env req w) =
          (\<lparr>StatusCode = 404, RespHeaders = Map.empty, RespBody = ''Not Found''\<rparr>, None))"
  by (simp add: handler_defs mapIndex_def empty_isbn_invalid)

theorem show_book_bad_request_not_found_witness:
  "show_book memEnv bareGetRequest emptyWorld =
     ((\<lparr>StatusCode = 400, RespHeaders = Map.empty, RespBody = ''Bad Request''\<rparr>, None), emptyWorld)
   \<and> show_book memEnv (getRequest ''12-4567890123'') emptyWorld =
     ((\<lparr>StatusCode = 400, RespHeaders = Map.empty, RespBody = ''Bad Request''\<rparr>, None), emptyWorld)
   \<and> fst (show_book memEnv (getRequest ''123-4567890123'') emptyWorld) =
     (\<lparr>StatusCode = 404, RespHeaders = Map.empty, RespBody = ''Not Found''\<rparr>, None)"
proof -
  have a: "QueryStringParameters bareGetRequest ''isbn'' = None"
    by (simp add: bareGetRequest_def)
  have b: "\<not> MatchString isbnRegexp
      (mapIndex (QueryStringParameters (getRequest ''12-4567890123'')) ''isbn'')"
    unfolding getRequest_def mapIndex_def by code_simp
  have c: "MatchString isbnRegexp
      (mapIndex (QueryStringParameters (getRequest ''123-4567890123'')) ''isbn'')"
    by (simp add: getRequest_def mapIndex_def sample_isbn_valid)
  have d: "fetch memEnv (mapIndex (QueryStringParameters (getRequest ''123-4567890123'')) ''isbn'')
             (db emptyWorld) = ((None, None), Map.empty)"
    by (simp add: memEnv_def memFetch_def emptyWorld_def)
  show ?thesis
    using show_book_bad_request_not_found [of bareGetRequest memEnv emptyWorld] a
      show_book_bad_request_not_found [of "getRequest ''12-4567890123''" memEnv emptyWorld] b
      show_book_bad_request_not_found
        [of "getRequest ''123-4567890123''" memEnv emptyWorld Map.empty] c d
    by simp
qed

subsection \<open>The write handler\<close>

text \<open>A record reaches \<^verbatim>\<open>putItem\<close> only as the decoded body of a request that passed
  every check.\<close>

lemma create_put_only_valid:
  assumes "PutItemCall b \<in> set (drop (length (calls w)) (calls (snd (create env req w))))"
  shows "mapIndex (Headers req) ''Content-Type'' = ''application/json''
     \<and> Unmarshal env (Body req) = (b, None) \<and> validBook b"
proof -
  obtain bk err where u: "Unmarshal env (Body req) = (bk, err)"
    by (cases "Unmarshal env (Body req)")
  obtain e d where s: "store env bk (db w) = (e, d)"
    by (cases "store env bk (db w)")
  show ?thesis using assms u s
    by (auto simp: handler_defs validBook_def split: if_splits option.splits)
qed

text \<open>
  Claim C3. The write handler checks in this order. A \<open>Content-Type\<close> header other than
  \<open>application/json\<close>: 406, and the world is unchanged, so the body was not decoded.
  Otherwise a body that fails to decode: 422. Otherwise an ISBN that fails the check, or an
  empty title or author: 400. In the last two cases the decoding is the only call made.
  A call of \<^verbatim>\<open>putItem\<close> happens only when the header is right, the body decoded without
  error, and the decoded record has a valid ISBN, a title and an author.
\<close>

theorem create_checks_in_order:
  "(mapIndex (Headers req) ''Content-Type'' \<noteq> ''application/json'' \<longrightarrow>
      create env req w =
        ((\<lparr>StatusCode = 406, RespHeaders = Map.empty, RespBody = ''Not Acceptable''\<rparr>, None), w))
   \<and> (mapIndex (Headers req) ''Content-Type'' = ''application/json''
        \<and> Unmarshal env (Body req) = (bk, Some e) \<longrightarrow>
      create env req w =
        ((\<lparr>StatusCode = 422, RespHeaders = Map.empty, RespBody = ''Unprocessable Entity''\<rparr>,
          None),
         w\<lparr>calls := calls w @ [UnmarshalCall (Body req)]\<rparr>))
   \<and> (mapIndex (Headers req) ''Content-Type'' = ''application/json''
        \<and> Unmarshal env (Body req) = (bk, None)
        \<and> (\<not> MatchString isbnRegexp (ISBN bk) \<or> Title bk = [] \<or> Author bk = []) \<longrightarrow>
      create env req w =
        ((\<lparr>StatusCode = 400, RespHeaders = Map.empty, RespBody = ''Bad Request''\<rparr>, None),
         w\<lparr>calls := calls w @ [UnmarshalCall (Body req)]\<rparr>))
   \<and> (PutItemCall b \<in> set (drop (length (calls w)) (calls (snd (create env req w)))) \<longrightarrow>
        mapIndex (Headers req) ''Content-Type'' = ''application/json''
        \<and> Unmarshal env (Body req) = (b, None)
        \<and> MatchString isbnRegexp (ISBN b) \<and> Title b \<noteq> [] \<and> Author b \<noteq> [])"
proof (intro conjI impI)
  assume "PutItemCall b \<in> set (drop (length (calls w)) (calls (snd (create env req w))))"
  from create_put_only_valid [OF this]
  show "mapIndex (Headers req) ''Content-Type'' = ''application/json''"
    and "Unmarshal env (Body req) = (b, None)"
    and "MatchString isbnRegexp (ISBN b)" and "Title b \<noteq> []" and "Author b \<noteq> []"
    by (simp_all add: validBook_def)
qed (auto simp: handler_defs)

theorem create_checks_in_order_witness:
  "create memEnv (postRequest ''Content-Type'' ''text/plain'' sampleJSON) emptyWorld =
     ((\<lparr>StatusCode = 406, RespHeaders = Map.empty, RespBody = ''Not Acceptable''\<rparr>, None),
      emptyWorld)
   \<and> create memEnv (postRequest ''Content-Type'' ''application/json'' ''{'') emptyWorld =
     ((\<lparr>StatusCode = 422, RespHeaders = Map.empty, RespBody = ''Unprocessable Entity''\<rparr>, None),
      emptyWorld\<lparr>calls := [UnmarshalCall ''{'']\<rparr>)
   \<and> create memEnv (postRequest ''Content-Type'' ''application/json'' isbnOnlyJSON) emptyWorld =
     ((\<lparr>StatusCode = 400, RespHeaders = Map.empty, RespBody = ''Bad Request''\<rparr>, None),
      emptyWorld\<lparr>calls := [UnmarshalCall isbnOnlyJSON]\<rparr>)
   \<and> PutItemCall sampleBook \<in> set (calls (snd
        (create memEnv (postRequest ''Content-Type'' ''application/json'' sampleJSON) emptyWorld)))
   \<and> validBook sampleBook"
proof (intro conjI)
  let ?json = "''application/json''"
  note T = create_checks_in_order [where env = memEnv and w = emptyWorld]
  have h: "\<And>c body. mapIndex (Headers (postRequest ''Content-Type'' c body)) ''Content-Type'' = c"
    "\<And>c body. Body (postRequest ''Content-Type'' c body) = body"
    by (simp_all add: postRequest_def mapIndex_def)
  have u: "Unmarshal memEnv = demoUnmarshal" by (simp add: memEnv_def)
  have c: "calls emptyWorld = []" by (simp add: emptyWorld_def)
  show "create memEnv (postRequest ''Content-Type'' ''text/plain'' sampleJSON) emptyWorld =
     ((\<lparr>StatusCode = 406, RespHeaders = Map.empty, RespBody = ''Not Acceptable''\<rparr>, None),
      emptyWorld)"
    by (rule T [THEN conjunct1, THEN mp]) (simp add: h)
  have "create memEnv (postRequest ''Content-Type'' ?json ''{'') emptyWorld =
     ((\<lparr>StatusCode = 422, RespHeaders = Map.empty, RespBody = ''Unprocessable Entity''\<rparr>, None),
      emptyWorld\<lparr>calls := calls emptyWorld
         @ [UnmarshalCall (Body (postRequest ''Content-Type'' ?json ''{''))]\<rparr>)"
    by (rule create_checks_in_order [where env = memEnv and w = emptyWorld
          and bk = "\<lparr>ISBN = [], Title = [], Author = []\<rparr>"
          and e = "errorString ''unexpected end of JSON input''",
          THEN conjunct2, THEN conjunct1, THEN mp])
      (simp add: h u demoUnmarshal_garbage)
  then show "create memEnv (postRequest ''Content-Type'' ?json ''{'') emptyWorld =
     ((\<lparr>StatusCode = 422, RespHeaders = Map.empty, RespBody = ''Unprocessable Entity''\<rparr>, None),
      emptyWorld\<lparr>calls := [UnmarshalCall ''{'']\<rparr>)"
    by (simp only: h c append_Nil)
  have "create memEnv (postRequest ''Content-Type'' ?json isbnOnlyJSON) emptyWorld =
     ((\<lparr>StatusCode = 400, RespHeaders = Map.empty, RespBody = ''Bad Request''\<rparr>, None),
      emptyWorld\<lparr>calls := calls emptyWorld
         @ [UnmarshalCall (Body (postRequest ''Content-Type'' ?json isbnOnlyJSON))]\<rparr>)"
    by (rule create_checks_in_order [where env = memEnv and w = emptyWorld
          and bk = "\<lparr>ISBN = ''123-4567890123'', Title = [], Author = []\<rparr>",
          THEN conjunct2, THEN conjunct2, THEN conjunct1, THEN mp])
      (simp add: h u demoUnmarshal_isbnOnly)
  then show "create memEnv (postRequest ''Content-Type'' ?json isbnOnlyJSON) emptyWorld =
     ((\<lparr>StatusCode = 400, RespHeaders = Map.empty, RespBody = ''Bad Request''\<rparr>, None),
      emptyWorld\<lparr>calls := [UnmarshalCall isbnOnlyJSON]\<rparr>)"
    by (simp only: h c append_Nil)
  have s: "store memEnv sampleBook (db emptyWorld) = (None, [ISBN sampleBook \<mapsto> sampleBook])"
    by (simp add: memEnv_def memStore_def emptyWorld_def)
  have v: "MatchString isbnRegexp (ISBN sampleBook)" "Title sampleBook \<noteq> []"
    "Author sampleBook \<noteq> []"
    using sampleBook_valid by (simp_all add: validBook_def)
  have r: "calls (snd (create memEnv (postRequest ''Content-Type'' ?json sampleJSON) emptyWorld))
      = [UnmarshalCall sampleJSON, PutItemCall sampleBook]"
    by (simp add: handler_defs h u demoUnmarshal_sample v s c)
  then show p: "PutItemCall sampleBook \<in> set (calls (snd
        (create memEnv (postRequest ''Content-Type'' ?json sampleJSON) emptyWorld)))"
    by simp
  have "PutItemCall sampleBook \<in> set (drop (length (calls emptyWorld)) (calls (snd
        (create memEnv (postRequest ''Content-Type'' ?json sampleJSON) emptyWorld))))"
    using p by (simp only: c list.size drop_0)
  from T [THEN conjunct2, THEN conjunct2, THEN conjunct2, THEN mp, OF this]
  show "validBook sampleBook" by (simp add: validBook_def)
qed

lemma postRequest_fields:
  "mapIndex (Headers (postRequest ''Content-Type'' c body)) ''Content-Type'' = c"
  "Body (postRequest h c body) = body"
  "HTTPMethod (postRequest h c body) = ''POST''"
  by (simp_all add: postRequest_def mapIndex_def)

lemma getRequest_fields:
  "mapIndex (QueryStringParameters (getRequest isbn)) ''isbn'' = isbn"
  "HTTPMethod (getRequest isbn) = ''GET''"
  by (simp_all add: getRequest_def mapIndex_def)

lemma sampleBook_fields:
  "MatchString isbnRegexp (ISBN sampleBook)" "Title sampleBook \<noteq> []" "Author sampleBook \<noteq> []"
  using sampleBook_valid by (simp_all add: validBook_def)

lemma create_success:
  assumes "mapIndex (Headers req) ''Content-Type'' = ''application/json''"
    and "Unmarshal env (Body req) = (bk, None)"
    and "MatchString isbnRegexp (ISBN bk)" and "Title bk \<noteq> []" and "Author bk \<noteq> []"
    and "store env bk (db w) = (None, d)"
  shows "create env req w =
    ((\<lparr>StatusCode = 201, RespHeaders = [''Location'' \<mapsto> ''/books?isbn='' @ ISBN bk],
       RespBody = []\<rparr>, None),
     w\<lparr>db := d, calls := calls w @ [UnmarshalCall (Body req), PutItemCall bk]\<rparr>)"
  using assms by (simp add: handler_defs)

lemma create_sample:
  "create memEnv (postRequest ''Content-Type'' ''application/json'' sampleJSON) emptyWorld =
    ((\<lparr>StatusCode = 201, RespHeaders = [''Location'' \<mapsto> ''/books?isbn='' @ ISBN sampleBook],
       RespBody = []\<rparr>, None),
     emptyWorld\<lparr>db := [ISBN sampleBook \<mapsto> sampleBook],
       calls := calls emptyWorld @ [UnmarshalCall sampleJSON, PutItemCall sampleBook]\<rparr>)"
proof -
  have "store memEnv sampleBook (db emptyWorld) = (None, [ISBN sampleBook \<mapsto> sampleBook])"
    by (simp add: memEnv_def memStore_def emptyWorld_def)
  moreover have "Unmarshal memEnv sampleJSON = (sampleBook, None)"
    by (simp add: memEnv_def demoUnmarshal_sample)
  ultimately show ?thesis
    using create_success [of "postRequest ''Content-Type'' ''application/json'' sampleJSON"
        memEnv sampleBook emptyWorld "[ISBN sampleBook \<mapsto> sampleBook]"]
    by (simp only: postRequest_fields sampleBook_fields not_False_eq_True simp_thms)
qed

text \<open>
  Claim C4. When the header is right, the body decodes to a record with a valid ISBN, a
  title and an author, and \<^verbatim>\<open>putItem\<close> succeeds, the write handler answers 201 with the
  single header \<open>Location\<close>, whose value is \<open>/books?isbn=\<close> followed by the bytes of the
  decoded ISBN as they are, and with an empty body.
\<close>

theorem create_created:
  assumes "mapIndex (Headers req) ''Content-Type'' = ''application/json''"
    and "Unmarshal env (Body req) = (bk, None)"
    and "MatchString isbnRegexp (ISBN bk)" and "Title bk \<noteq> []" and "Author bk \<noteq> []"
    and "store env bk (db w) = (None, d)"
  shows "create env req w =
    ((\<lparr>StatusCode = 201, RespHeaders = [''Location'' \<mapsto> ''/books?isbn='' @ ISBN bk],
       RespBody = []\<rparr>, None),
     w\<lparr>db := d, calls := calls w @ [UnmarshalCall (Body req), PutItemCall bk]\<rparr>)"
  using assms by (rule create_success)

theorem create_created_witness:
  "fst (create memEnv (postRequest ''Content-Type'' ''application/json'' sampleJSON) emptyWorld) =
    (\<lparr>StatusCode = 201, RespHeaders = [''Location'' \<mapsto> ''/books?isbn=123-4567890123''],
      RespBody = []\<rparr>, None)"
proof -
  have s: "store memEnv sampleBook (db emptyWorld) = (None, [ISBN sampleBook \<mapsto> sampleBook])"
    by (simp add: memEnv_def memStore_def emptyWorld_def)
  have u: "Unmarshal memEnv (Body (postRequest ''Content-Type'' ''application/json'' sampleJSON))
      = (sampleBook, None)"
    by (simp add: postRequest_fields memEnv_def demoUnmarshal_sample)
  have "ISBN sampleBook = ''123-4567890123''" by (simp add: sampleBook_def)
  then show ?thesis
    using create_created [OF postRequest_fields(1) u sampleBook_fields s]
    by simp
qed

subsection \<open>Failures of the backend\<close>

text \<open>
  Claim C5. When the persistence operation of a GET or a POST returns an error, the
  response is 500 with the body \<open>Internal Server Error\<close>, the same for every cause, and
  exactly one line is appended to the error log: the prefix \<open>ERROR\<close>, the place of the
  call, and the message of the cause.
\<close>

theorem storage_failure_500:
  "(HTTPMethod req = ''GET''
      \<and> MatchString isbnRegexp (mapIndex (QueryStringParameters req) ''isbn'')
      \<and> fetch env (mapIndex (QueryStringParameters req) ''isbn'') (db w) = ((r, Some e), d) \<longrightarrow>
    router env req w =
      ((\<lparr>StatusCode = 500, RespHeaders = Map.empty, RespBody = ''Internal Server Error''\<rparr>, None),
       w\<lparr>db := d,
         stderr := stderr w @ [''ERROR '' @ srcFile env @ '':100: '' @ Error e @ [CHR 0x0A]],
         calls := calls w @ [GetItemCall (mapIndex (QueryStringParameters req) ''isbn'')]\<rparr>))
   \<and> (HTTPMethod req = ''POST''
      \<and> mapIndex (Headers req) ''Content-Type'' = ''application/json''
      \<and> Unmarshal env (Body req) = (bk, None)
      \<and> MatchString isbnRegexp (ISBN bk) \<and> Title bk \<noteq> [] \<and> Author bk \<noteq> []
      \<and> store env bk (db w) = (Some e, d) \<longrightarrow>
    router env req w =
      ((\<lparr>StatusCode = 500, RespHeaders = Map.empty, RespBody = ''Internal Server Error''\<rparr>, None),
       w\<lparr>db := d,
         stderr := stderr w @ [''ERROR '' @ srcFile env @ '':100: '' @ Error e @ [CHR 0x0A]],
         calls := calls w @ [UnmarshalCall (Body req), PutItemCall bk]\<rparr>))"
  by (simp add: router_def handler_defs)

theorem storage_failure_500_witness:
  "router downEnv (getRequest ''123-4567890123'') emptyWorld =
      ((\<lparr>StatusCode = 500, RespHeaders = Map.empty, RespBody = ''Internal Server Error''\<rparr>, None),
       emptyWorld\<lparr>db := Map.empty,
         stderr := [''ERROR /app/main.go:100: connection refused'' @ [CHR 0x0A]],
         calls := [GetItemCall ''123-4567890123'']\<rparr>)
   \<and> router downEnv (postRequest ''Content-Type'' ''application/json'' sampleJSON) emptyWorld =
      ((\<lparr>StatusCode = 500, RespHeaders = Map.empty, RespBody = ''Internal Server Error''\<rparr>, None),
       emptyWorld\<lparr>db := Map.empty,
         stderr := [''ERROR /app/main.go:100: connection refused'' @ [CHR 0x0A]],
         calls := [UnmarshalCall sampleJSON, PutItemCall sampleBook]\<rparr>)"
proof (intro conjI)
  let ?e = "errorString ''connection refused''"
  have w: "db emptyWorld = Map.empty" "stderr emptyWorld = []" "calls emptyWorld = []"
    by (simp_all add: emptyWorld_def)
  have env: "srcFile downEnv = ''/app/main.go''" "fetch downEnv = downFetch"
    "store downEnv = downStore" "Unmarshal downEnv = demoUnmarshal"
    by (simp_all add: downEnv_def)
  have "fetch downEnv (mapIndex (QueryStringParameters (getRequest ''123-4567890123'')) ''isbn'')
      (db emptyWorld) = ((None, Some ?e), Map.empty)"
    by (simp add: env downFetch_def w)
  from storage_failure_500 [where req = "getRequest ''123-4567890123''" and env = downEnv
      and w = emptyWorld and r = None and e = ?e and d = Map.empty,
      THEN conjunct1, THEN mp, OF conjI, OF getRequest_fields(2), OF conjI, OF _ this]
  show "router downEnv (getRequest ''123-4567890123'') emptyWorld =
      ((\<lparr>StatusCode = 500, RespHeaders = Map.empty, RespBody = ''Internal Server Error''\<rparr>, None),
       emptyWorld\<lparr>db := Map.empty,
         stderr := [''ERROR /app/main.go:100: connection refused'' @ [CHR 0x0A]],
         calls := [GetItemCall ''123-4567890123'']\<rparr>)"
    by (simp add: getRequest_fields sample_isbn_valid w env)
  let ?post = "postRequest ''Content-Type'' ''application/json'' sampleJSON"
  have "HTTPMethod ?post = ''POST''
      \<and> mapIndex (Headers ?post) ''Content-Type'' = ''application/json''
      \<and> Unmarshal downEnv (Body ?post) = (sampleBook, None)
      \<and> MatchString isbnRegexp (ISBN sampleBook) \<and> Title sampleBook \<noteq> []
      \<and> Author sampleBook \<noteq> []
      \<and> store downEnv sampleBook (db emptyWorld) = (Some ?e, Map.empty)"
    by (simp add: postRequest_fields env demoUnmarshal_sample sampleBook_fields downStore_def w)
  from storage_failure_500 [where req = ?post and env = downEnv and w = emptyWorld
      and bk = sampleBook and e = ?e and d = Map.empty, THEN conjunct2, THEN mp, OF this]
  show "router downEnv ?post emptyWorld =
      ((\<lparr>StatusCode = 500, RespHeaders = Map.empty, RespBody = ''Internal Server Error''\<rparr>, None),
       emptyWorld\<lparr>db := Map.empty,
         stderr := [''ERROR /app/main.go:100: connection refused'' @ [CHR 0x0A]],
         calls := [UnmarshalCall sampleJSON, PutItemCall sampleBook]\<rparr>)"
    by (simp add: postRequest_fields w env)
qed

subsection \<open>What reaches the backend\<close>

text \<open>Each handler only appends to the history of calls; the read handler appends no
  \<^verbatim>\<open>putItem\<close>, and the write handler appends one only for a record that passed the checks.\<close>

lemma show_book_calls:
  "\<exists>evs. calls (snd (show_book env req w)) = calls w @ evs \<and> (\<forall>b. PutItemCall b \<notin> set evs)"
proof -
  obtain r d where f: "fetch env (mapIndex (QueryStringParameters req) ''isbn'') (db w) = (r, d)"
    by (cases "fetch env (mapIndex (QueryStringParameters req) ''isbn'') (db w)")
  obtain b e where r: "r = (b, e)" by (cases r)
  show ?thesis
  proof (cases b)
    case None
    with f r show ?thesis by (cases e) (simp_all add: handler_defs)
  next
    case (Some bk)
    obtain js e2 where m: "Marshal env bk = (js, e2)" by (cases "Marshal env bk")
    with f r Some show ?thesis by (cases e; cases e2) (simp_all add: handler_defs)
  qed
qed

lemma create_calls:
  "\<exists>evs. calls (snd (create env req w)) = calls w @ evs
     \<and> (\<forall>b. PutItemCall b \<in> set evs \<longrightarrow> validBook b)"
proof -
  obtain bk err where u: "Unmarshal env (Body req) = (bk, err)"
    by (cases "Unmarshal env (Body req)")
  obtain e d where s: "store env bk (db w) = (e, d)"
    by (cases "store env bk (db w)")
  show ?thesis using u s
    by (cases e; cases err) (simp_all add: handler_defs validBook_def)
qed

lemma router_calls:
  "\<exists>evs. calls (snd (router env req w)) = calls w @ evs
     \<and> (\<forall>b. PutItemCall b \<in> set evs \<longrightarrow> validBook b)"
proof -
  consider "HTTPMethod req = ''GET''" | "HTTPMethod req \<noteq> ''GET''" "HTTPMethod req = ''POST''"
    | "HTTPMethod req \<noteq> ''GET''" "HTTPMethod req \<noteq> ''POST''" by blast
  then show ?thesis
  proof cases
    case 1
    then show ?thesis using show_book_calls [of env req w] by (auto simp: router_def)
  next
    case 2
    then show ?thesis using create_calls [of env req w] by (simp add: router_def)
  next
    case 3
    then show ?thesis by (simp add: router_def)
  qed
qed

lemma serve_calls:
  "\<exists>evs. calls (snd (serve env reqs w)) = calls w @ evs
     \<and> (\<forall>b. PutItemCall b \<in> set evs \<longrightarrow> validBook b)"
proof (induction reqs arbitrary: w)
  case Nil
  show ?case by simp
next
  case (Cons req reqs)
  obtain r w1 where r: "router env req w = (r, w1)" by (cases "router env req w")
  obtain rs w2 where s: "serve env reqs w1 = (rs, w2)" by (cases "serve env reqs w1")
  from router_calls [of env req w] r obtain evs1 where
    1: "calls w1 = calls w @ evs1" "\<forall>b. PutItemCall b \<in> set evs1 \<longrightarrow> validBook b"
    by auto
  from Cons.IH [of w1] s obtain evs2 where
    2: "calls w2 = calls w1 @ evs2" "\<forall>b. PutItemCall b \<in> set evs2 \<longrightarrow> validBook b"
    by auto
  have "calls w2 = calls w @ (evs1 @ evs2)
      \<and> (\<forall>b. PutItemCall b \<in> set (evs1 @ evs2) \<longrightarrow> validBook b)"
    using 1 2 by auto
  then show ?case using r s by auto
qed

text \<open>
  Claim C6. Over any run of requests, from any world, every record that the run passes to
  \<^verbatim>\<open>putItem\<close> has an ISBN that passes the check, a title and an author. A single request is
  the run of length one.
\<close>

theorem persisted_records_valid:
  assumes "PutItemCall b \<in> set (drop (length (calls w)) (calls (snd (serve env reqs w))))"
  shows "MatchString isbnRegexp (ISBN b) \<and> Title b \<noteq> [] \<and> Author b \<noteq> []"
proof -
  from serve_calls [of env reqs w] obtain evs where
    "calls (snd (serve env reqs w)) = calls w @ evs"
    "\<forall>b. PutItemCall b \<in> set evs \<longrightarrow> validBook b" by blast
  with assms show ?thesis by (simp add: validBook_def)
qed

theorem persisted_records_valid_witness:
  "PutItemCall sampleBook \<in> set (calls (snd (serve memEnv
      [postRequest ''Content-Type'' ''application/json'' sampleJSON] emptyWorld)))
   \<and> MatchString isbnRegexp (ISBN sampleBook) \<and> Title sampleBook \<noteq> []
   \<and> Author sampleBook \<noteq> []"
proof -
  let ?post = "postRequest ''Content-Type'' ''application/json'' sampleJSON"
  have c: "calls emptyWorld = []" by (simp add: emptyWorld_def)
  have "calls (snd (serve memEnv [?post] emptyWorld)) =
      [UnmarshalCall sampleJSON, PutItemCall sampleBook]"
    by (simp add: router_def postRequest_fields create_sample c)
  then have p: "PutItemCall sampleBook \<in> set (calls (snd (serve memEnv [?post] emptyWorld)))"
    by simp
  then have "PutItemCall sampleBook \<in> set (drop (length (calls emptyWorld))
      (calls (snd (serve memEnv [?post] emptyWorld))))"
    by (simp only: c list.size drop_0)
  from persisted_records_valid [OF this] p show ?thesis by simp
qed

subsection \<open>The router\<close>

text \<open>
  Claim C7. The router looks at the method only: a GET is what the read handler makes of
  the request, a POST what the write handler makes of it, and every other method gets 405
  with the body \<open>Method Not Allowed\<close> and the world unchanged, so no persistence call.
\<close>

theorem router_dispatch:
  "(HTTPMethod req = ''GET'' \<longrightarrow> router env req w = show_book env req w)
   \<and> (HTTPMethod req = ''POST'' \<longrightarrow> router env req w = create env req w)
   \<and> (HTTPMethod req \<noteq> ''GET'' \<and> HTTPMethod req \<noteq> ''POST'' \<longrightarrow>
        router env req w =
          ((\<lparr>StatusCode = 405, RespHeaders = Map.empty, RespBody = ''Method Not Allowed''\<rparr>, None),
           w))"
  by (simp add: router_def clientError_def StatusText_def)

theorem router_dispatch_witness:
  "router memEnv (getRequest ''123-4567890123'') emptyWorld =
     show_book memEnv (getRequest ''123-4567890123'') emptyWorld
   \<and> router memEnv (postRequest ''Content-Type'' ''application/json'' sampleJSON) emptyWorld =
     create memEnv (postRequest ''Content-Type'' ''application/json'' sampleJSON) emptyWorld
   \<and> router memEnv deleteRequest emptyWorld =
     ((\<lparr>StatusCode = 405, RespHeaders = Map.empty, RespBody = ''Method Not Allowed''\<rparr>, None),
      emptyWorld)"
proof (intro conjI)
  show "router memEnv (getRequest ''123-4567890123'') emptyWorld =
     show_book memEnv (getRequest ''123-4567890123'') emptyWorld"
    by (rule router_dispatch [THEN conjunct1, THEN mp]) (rule getRequest_fields)
  show "router memEnv (postRequest ''Content-Type'' ''application/json'' sampleJSON) emptyWorld =
     create memEnv (postRequest ''Content-Type'' ''application/json'' sampleJSON) emptyWorld"
    by (rule router_dispatch [THEN conjunct2, THEN conjunct1, THEN mp])
      (rule postRequest_fields)
  show "router memEnv deleteRequest emptyWorld =
     ((\<lparr>StatusCode = 405, RespHeaders = Map.empty, RespBody = ''Method Not Allowed''\<rparr>, None),
      emptyWorld)"
    by (rule router_dispatch [THEN conjunct2, THEN conjunct2, THEN mp])
      (simp add: deleteRequest_def)
qed

lemma show_book_total:
  "snd (fst (show_book env req w)) = None
   \<and> StatusCode (fst (fst (show_book env req w))) \<in> {200, 400, 404, 500}"
proof -
  obtain r d where f: "fetch env (mapIndex (QueryStringParameters req) ''isbn'') (db w) = (r, d)"
    by (cases "fetch env (mapIndex (QueryStringParameters req) ''isbn'') (db w)")
  obtain b e where r: "r = (b, e)" by (cases r)
  show ?thesis
  proof (cases b)
    case None
    with f r show ?thesis by (simp add: handler_defs split: option.splits)
  next
    case (Some bk)
    obtain js e2 where m: "Marshal env bk = (js, e2)" by (cases "Marshal env bk")
    with f r Some show ?thesis by (simp add: handler_defs split: option.splits)
  qed
qed

lemma create_total:
  "snd (fst (create env req w)) = None
   \<and> StatusCode (fst (fst (create env req w))) \<in> {201, 400, 406, 422, 500}"
proof -
  obtain bk err where u: "Unmarshal env (Body req) = (bk, err)"
    by (cases "Unmarshal env (Body req)")
  obtain e d where s: "store env bk (db w) = (e, d)"
    by (cases "store env bk (db w)")
  show ?thesis using u s by (simp add: handler_defs split: option.splits)
qed

text \<open>
  Claim C8. For every request, every world and every behaviour of the collaborators that
  returns, the router returns a response and a nil error: the error component is \<open>None\<close>
  on every path, and the status code is one of 200, 201, 400, 404, 405, 406, 422 and 500.
  The router is a total function of the model, so there is no path without a response.
\<close>

theorem router_always_responds:
  "snd (fst (router env req w)) = None
   \<and> StatusCode (fst (fst (router env req w))) \<in> {200, 201, 400, 404, 405, 406, 422, 500}"
  using show_book_total [of env req w] create_total [of env req w]
  by (auto simp: router_def clientError_def)

subsection \<open>The header lookup\<close>

text \<open>
  Claim C10. The write handler reads the content type under the key \<open>Content-Type\<close>,
  byte for byte. When the headers have no such key, whatever other keys they have, the
  handler answers 406 and returns the world unchanged: the body is not decoded.
\<close>

theorem create_header_exact_key:
  assumes "Headers req ''Content-Type'' = None"
  shows "create env req w =
      ((\<lparr>StatusCode = 406, RespHeaders = Map.empty, RespBody = ''Not Acceptable''\<rparr>, None), w)
    \<and> calls (snd (create env req w)) = calls w"
  using assms by (simp add: handler_defs mapIndex_def)

theorem create_header_exact_key_witness:
  "Headers (postRequest ''content-type'' ''application/json'' sampleJSON) ''content-type''
      = Some ''application/json''
   \<and> create memEnv (postRequest ''content-type'' ''application/json'' sampleJSON) emptyWorld =
      ((\<lparr>StatusCode = 406, RespHeaders = Map.empty, RespBody = ''Not Acceptable''\<rparr>, None),
       emptyWorld)"
proof -
  have "Headers (postRequest ''content-type'' ''application/json'' sampleJSON) ''Content-Type''
      = None"
    by (simp add: postRequest_def)
  from create_header_exact_key [OF this, of memEnv emptyWorld]
  show ?thesis by (simp add: postRequest_def)
qed

subsection \<open>Writing, then reading\<close>

text \<open>
  Claim C9. With the in-memory store as backend: when a POST is answered 201, the record
  decoded from its body is in the store under its ISBN, and a GET for that ISBN right after
  is answered 200 with the encoding of that very record as body, whenever the encoder
  returns one: the ISBN, title and author that are read are those that were written.
\<close>

theorem write_then_read:
  assumes "fetch env = memFetch" and "store env = memStore"
    and "StatusCode (fst (fst (create env post w))) = 201"
    and "Unmarshal env (Body post) = (bk, e0)"
    and "mapIndex (QueryStringParameters get) ''isbn'' = ISBN bk"
    and "Marshal env bk = (js, None)"
  shows "db (snd (create env post w)) (ISBN bk) = Some bk
    \<and> fst (show_book env get (snd (create env post w))) =
      (\<lparr>StatusCode = 200, RespHeaders = Map.empty, RespBody = js\<rparr>, None)"
proof -
  have ok: "mapIndex (Headers post) ''Content-Type'' = ''application/json''" "e0 = None"
    "MatchString isbnRegexp (ISBN bk)" "Title bk \<noteq> []" "Author bk \<noteq> []"
    using assms(1-4) by (auto simp: handler_defs memStore_def split: if_splits)
  have "store env bk (db w) = (None, (db w)(ISBN bk \<mapsto> bk))"
    using assms(2) by (simp add: memStore_def)
  from create_success [OF ok(1) assms(4) [unfolded ok(2)] ok(3-5) this]
  have w1: "snd (create env post w) =
      w\<lparr>db := (db w)(ISBN bk \<mapsto> bk),
        calls := calls w @ [UnmarshalCall (Body post), PutItemCall bk]\<rparr>"
    by simp
  show ?thesis using ok assms(1,5,6) unfolding w1
    by (simp add: handler_defs memFetch_def)
qed

theorem write_then_read_witness:
  "fst (show_book memEnv (getRequest ''123-4567890123'')
      (snd (create memEnv (postRequest ''Content-Type'' ''application/json'' sampleJSON)
         emptyWorld))) =
     (\<lparr>StatusCode = 200, RespHeaders = Map.empty, RespBody = sampleJSON\<rparr>, None)"
proof -
  let ?post = "postRequest ''Content-Type'' ''application/json'' sampleJSON"
  have env: "fetch memEnv = memFetch" "store memEnv = memStore"
    by (simp_all add: memEnv_def)
  have s: "StatusCode (fst (fst (create memEnv ?post emptyWorld))) = 201"
    by (simp add: create_sample)
  have u: "Unmarshal memEnv (Body ?post) = (sampleBook, None)"
    by (simp add: postRequest_fields memEnv_def demoUnmarshal_sample)
  have q: "mapIndex (QueryStringParameters (getRequest ''123-4567890123'')) ''isbn''
      = ISBN sampleBook"
    by (simp add: getRequest_fields sampleBook_def)
  have m: "Marshal memEnv sampleBook = (sampleJSON, None)"
    by (simp add: memEnv_def demoMarshal_def sampleBook_def sampleJSON_def)
  from write_then_read [OF env s u q m] show ?thesis by simp
qed

subsection \<open>The records in the in-memory store\<close>

text \<open>With the in-memory store as backend, the read handler leaves the store as it is, and
  the write handler leaves it or adds the decoded record, which then is valid. So a store
  of valid records stays one over any run of requests.\<close>

lemma show_book_mem_db:
  assumes "fetch env = memFetch"
  shows "db (snd (show_book env req w)) = db w"
proof -
  let ?isbn = "mapIndex (QueryStringParameters req) ''isbn''"
  have f: "fetch env ?isbn (db w) = ((db w ?isbn, None), db w)"
    using assms by (simp add: memFetch_def)
  show ?thesis
  proof (cases "db w ?isbn")
    case None
    with f show ?thesis by (simp add: handler_defs)
  next
    case (Some bk)
    obtain js e2 where m: "Marshal env bk = (js, e2)" by (cases "Marshal env bk")
    with f Some show ?thesis by (cases e2) (simp_all add: handler_defs)
  qed
qed

lemma create_mem_db:
  assumes "store env = memStore"
  shows "db (snd (create env req w)) = db w
    \<or> (\<exists>bk. validBook bk \<and> db (snd (create env req w)) = (db w)(ISBN bk \<mapsto> bk))"
proof -
  obtain bk err where u: "Unmarshal env (Body req) = (bk, err)"
    by (cases "Unmarshal env (Body req)")
  have s: "store env bk (db w) = (None, (db w)(ISBN bk \<mapsto> bk))"
    using assms by (simp add: memStore_def)
  show ?thesis
  proof (cases "mapIndex (Headers req) ''Content-Type'' = ''application/json'' \<and> err = None
      \<and> validBook bk")
    case True
    then have "db (snd (create env req w)) = (db w)(ISBN bk \<mapsto> bk)"
      using u s by (simp add: handler_defs validBook_def)
    with True show ?thesis by blast
  next
    case False
    then have "db (snd (create env req w)) = db w"
      using u s by (auto simp: handler_defs validBook_def)
    then show ?thesis by blast
  qed
qed

lemma router_mem_db:
  assumes "fetch env = memFetch" and "store env = memStore"
  shows "db (snd (router env req w)) = db w
    \<or> (\<exists>bk. validBook bk \<and> db (snd (router env req w)) = (db w)(ISBN bk \<mapsto> bk))"
proof (cases "HTTPMethod req = ''GET''")
  case True
  then show ?thesis using show_book_mem_db [OF assms(1)] by (simp add: router_def)
next
  case False
  show ?thesis
  proof (cases "HTTPMethod req = ''POST''")
    case True
    with False show ?thesis using create_mem_db [OF assms(2)] by (simp add: router_def)
  next
    case False
    with \<open>HTTPMethod req \<noteq> ''GET''\<close> show ?thesis by (simp add: router_def)
  qed
qed

lemma router_mem_valid:
  assumes "fetch env = memFetch" and "store env = memStore"
    and "\<And>k b. db w k = Some b \<Longrightarrow> validBook b"
    and "db (snd (router env req w)) k = Some b"
  shows "validBook b"
proof -
  from router_mem_db [OF assms(1,2)]
  consider "db (snd (router env req w)) = db w"
    | bk where "validBook bk" "db (snd (router env req w)) = (db w)(ISBN bk \<mapsto> bk)"
    by blast
  then show ?thesis
  proof cases
    case 1
    with assms(3,4) show ?thesis by simp
  next
    case 2
    with assms(3,4) show ?thesis by (cases "k = ISBN bk") simp_all
  qed
qed

lemma serve_mem_valid:
  assumes "fetch env = memFetch" and "store env = memStore"
  shows "(\<And>k b. db w k = Some b \<Longrightarrow> validBook b)
    \<Longrightarrow> db (snd (serve env reqs w)) k = Some b \<Longrightarrow> validBook b"
proof (induction reqs arbitrary: w)
  case Nil
  then show ?case by simp
next
  case (Cons req reqs)
  obtain r w1 where r: "router env req w = (r, w1)" by (cases "router env req w")
  obtain rs w2 where s: "serve env reqs w1 = (rs, w2)" by (cases "serve env reqs w1")
  have "\<And>k b. db w1 k = Some b \<Longrightarrow> validBook b"
    using router_mem_valid [OF assms Cons.prems(1), where req = req] r by simp
  moreover have "db (snd (serve env reqs w1)) k = Some b"
    using Cons.prems(2) r s by simp
  ultimately show ?case by (rule Cons.IH)
qed

end
